theory Spec2Isabelle
  imports Main "HOL-Library.Word"
begin

section \<open>RewardProjector: \<open>calculateEstimatedRewards\<close> (pages/farm/[address].tsx)\<close>

text \<open>
  An \<open>ethers.BigNumber\<close> is a signed integer of unbounded size: \<open>mul\<close>, \<open>add\<close> and
  \<open>sub\<close> never overflow, and \<open>div\<close> truncates towards zero (BN.js), unlike the
  \<open>div\<close> of HOL, which rounds down.
\<close>

type_synonym BigNumber = int

definition WeiPerEther :: BigNumber where
  "WeiPerEther = 10 ^ 18"

definition bn_div :: "BigNumber \<Rightarrow> BigNumber \<Rightarrow> BigNumber" where
  "bn_div a b = sgn a * sgn b * (\<bar>a\<bar> div \<bar>b\<bar>)"

text \<open>
  A JavaScript \<open>Date\<close> holds a time value in milliseconds, or NaN when it is invalid;
  \<open>getTime\<close> returns it (\<open>None\<close> stands for NaN).
\<close>

datatype Date = Date int | InvalidDate

fun getTime :: "Date \<Rightarrow> int option" where
  "getTime (Date ms) = Some ms"
| "getTime InvalidDate = None"

text \<open>
  The component state the helper and the timer work on: \<open>farmData\<close> and \<open>userData\<close> (the
  interfaces \<open>DecodedFarmData\<close> and \<open>DecodedUserData\<close>, undefined until loaded), the
  estimate on display and the wall clock \<open>Date.now()\<close> in milliseconds. Of the optional
  fields of \<open>DecodedFarmData\<close> the record keeps the two dates; \<open>farmEndTimestamp\<close> is its
  \<open>endTimestamp\<close>.
\<close>

record DecodedFarmData =
  stakeTokenAddress :: string
  rewardTokenAddress :: string
  totalStaked :: BigNumber
  rewardRatePerSecond :: BigNumber
  lastUpdateTimestamp :: BigNumber
  isFunded :: bool
  totalRewardAmount :: BigNumber
  farmEndTimestamp :: BigNumber
  farmEndTime :: "Date option"
  farmStartTime :: "Date option"

record DecodedUserData =
  stakedAmount :: BigNumber
  rewardDebt :: BigNumber
  stakeTokenBalance :: BigNumber
  stakeTokenAllowance :: BigNumber

record component =
  dateNow :: int
  farmData :: "DecodedFarmData option"
  userData :: "DecodedUserData option"
  estimatedClaimableRewards :: BigNumber

text \<open>
  \<open>BigNumber.toNumber()\<close> throws unless the value fits in 53 bits; \<open>new Date(ms)\<close> is
  an invalid date beyond 8.64e15 milliseconds.
\<close>

definition toNumber :: "BigNumber \<Rightarrow> int option" where
  "toNumber x = (if \<bar>x\<bar> < 2 ^ 53 then Some x else None)"

definition newDate :: "int \<Rightarrow> Date" where
  "newDate ms = (if \<bar>ms\<bar> \<le> 8640000000000000 then Date ms else InvalidDate)"

text \<open>
  How \<open>loadData\<close> of the page sets \<open>farmStartTime\<close>, from the decoded \<open>endTimestamp\<close> and
  the lock duration it read from the contract (\<open>None\<close> when it read none):
  \<open>if (lockDurationSeconds && !lockDurationSeconds.isZero())
     farmStartTime = new Date((endTimestampSeconds - lockDurationSeconds.toNumber()) * 1000);\<close>
  inside a \<open>try\<close> whose \<open>catch\<close> only logs, so a throwing \<open>toNumber\<close> leaves it undefined.
  The interface comments \<open>farmStartTime\<close> as "Calculated from end and duration", and the
  earlier version of the page subtracts the farm's duration; this version subtracts the
  lock duration.
\<close>

definition loadData_farmStartTime :: "BigNumber \<Rightarrow> BigNumber option \<Rightarrow> Date option" where
  "loadData_farmStartTime endTs lockDuration =
     (case toNumber endTs of
        None \<Rightarrow> None
      | Some endTimestampSeconds \<Rightarrow>
          (case lockDuration of
             None \<Rightarrow> None
           | Some l \<Rightarrow>
               if l = 0 then None
               else (case toNumber l of
                       None \<Rightarrow> None
                     | Some lockSeconds \<Rightarrow>
                         Some (newDate ((endTimestampSeconds - lockSeconds) * 1000)))))"

text \<open>
  \<open>farmData?.farmStartTime?.getTime() ? Math.floor(farmData.farmStartTime.getTime() / 1000) : 0\<close>:
  an undefined \<open>farmData\<close> or \<open>farmStartTime\<close>, a NaN and a zero time value are all
  falsy and give 0.
\<close>

definition farmStartSeconds :: "DecodedFarmData option \<Rightarrow> int" where
  "farmStartSeconds fd =
     (case fd of
        None \<Rightarrow> 0
      | Some d \<Rightarrow>
          (case farmStartTime d of
             None \<Rightarrow> 0
           | Some t \<Rightarrow>
               (case getTime t of
                  None \<Rightarrow> 0
                | Some ms \<Rightarrow> if ms = 0 then 0 else ms div 1000)))"

text \<open>\<open>Math.floor(Date.now() / 1000)\<close>.\<close>

definition nowSeconds :: "component \<Rightarrow> int" where
  "nowSeconds c = dateNow c div 1000"

text \<open>
  The helper itself. Each parameter is \<open>ethers.BigNumber | undefined\<close>; a BigNumber
  object is always truthy, so \<open>!x\<close> holds exactly for an undefined argument.
\<close>

definition calculateEstimatedRewards ::
  "component \<Rightarrow> BigNumber option \<Rightarrow> BigNumber option \<Rightarrow> BigNumber option \<Rightarrow>
   BigNumber option \<Rightarrow> BigNumber option \<Rightarrow> BigNumber" where
  "calculateEstimatedRewards c userStaked rewardRate lastUpdate endTs baseRewardDebt =
     (case (userStaked, rewardRate, lastUpdate, endTs, baseRewardDebt) of
        (Some us, Some r, Some lu, Some e, Some b) \<Rightarrow>
          if us = 0 then b
          else
            (let effectiveCurrentTimestamp = (if nowSeconds c > e then e else nowSeconds c);
                 effectiveLastUpdate0 =
                   (if lu > effectiveCurrentTimestamp then effectiveCurrentTimestamp else lu);
                 effectiveLastUpdate =
                   (if effectiveLastUpdate0 < farmStartSeconds (farmData c)
                    then farmStartSeconds (farmData c) else effectiveLastUpdate0);
                 accruedRewards =
                   (if effectiveCurrentTimestamp > effectiveLastUpdate
                    then bn_div (us * r * (effectiveCurrentTimestamp - effectiveLastUpdate))
                           WeiPerEther
                    else 0)
             in b + accruedRewards)
      | _ \<Rightarrow> (case baseRewardDebt of Some b \<Rightarrow> b | None \<Rightarrow> 0))"

text \<open>
  The live estimate of the page. Its effect resets the estimate to 0 and starts no timer
  while \<open>farmData\<close> or \<open>userData\<close> is missing; otherwise its timer calls the helper once
  per second with \<open>userData.stakedAmount\<close>, \<open>farmData.rewardRatePerSecond\<close>,
  \<open>farmData.lastUpdateTimestamp\<close>, \<open>farmData.endTimestamp\<close> and \<open>userData.rewardDebt\<close>, and
  stores the result as the estimate. \<open>ticks\<close> runs the timer at a list of wall-clock
  times (milliseconds).
\<close>

definition timer_tick :: "component \<Rightarrow> component" where
  "timer_tick c =
     (case (farmData c, userData c) of
        (Some fd, Some ud) \<Rightarrow>
          c\<lparr>estimatedClaimableRewards :=
              calculateEstimatedRewards c (Some (stakedAmount ud))
                (Some (rewardRatePerSecond fd)) (Some (lastUpdateTimestamp fd))
                (Some (farmEndTimestamp fd)) (Some (rewardDebt ud))\<rparr>
      | _ \<Rightarrow> c\<lparr>estimatedClaimableRewards := 0\<rparr>)"

fun ticks :: "component \<Rightarrow> int list \<Rightarrow> component" where
  "ticks c [] = c"
| "ticks c (now # nows) = ticks (timer_tick (c\<lparr>dateNow := now\<rparr>)) nows"

section \<open>Registry: \<open>FarmFactory\<close> (contracts/FarmFactory.sol)\<close>

text \<open>
  Solidity values: an \<open>address\<close> has 160 bits, \<open>bytes32\<close> and \<open>uint256\<close> have 256.
  A \<open>mapping\<close> is total and reads as zero at a key that was never written, so it is a
  function whose initial value is the constant zero (the empty string for \<open>string\<close>).
  Arithmetic on \<open>uint256\<close> is checked (Solidity 0.8): an overflow reverts with a panic.
\<close>

type_synonym address = "160 word"
type_synonym bytes32 = "256 word"
type_synonym uint256 = "256 word"
type_synonym bytes = "8 word list"

text \<open>
  Every \<open>require\<close> of the two contracts is one error, named after its reason string;
  \<open>OwnableUnauthorizedAccount\<close> and \<open>OwnableInvalidOwner\<close> are the errors of the inherited
  \<open>Ownable\<close>, \<open>FailedDeployment\<close> is that of \<open>Clones.clone\<close>, \<open>TransferReverted\<close> is a
  reverting \<open>transfer\<close>, \<open>Panic\<close> a failed arithmetic or bounds check and \<open>DecodeError\<close>
  a reverting \<open>abi.decode\<close>.
\<close>

datatype error =
    OwnableUnauthorizedAccount
  | OwnableInvalidOwner
  | InvalidType
  | ZeroAddress
  | AlreadyRegistered
  | UnregisteredFarmType
  | InsufficientFee
  | TransferReverted
  | FailedDeployment
  | InitializationFailed
  | Panic
  | AlreadyInitialized
  | DecodeError
  | ZeroOwner
  | InvalidTokens
  | ZeroDuration
  | BoostTooLow

datatype event =
    FarmTypeRegistered bytes32 address
  | FarmDeployed bytes32 address address string

text \<open>
  The storage of the factory, with \<open>ownable_owner\<close> for the \<open>_owner\<close> of \<open>Ownable\<close>.
  Three fields record what the contract does outside its storage: \<open>balance\<close> is the
  ether it holds, \<open>sent\<close> lists the ether transfers it has made (receiver, amount) and
  \<open>events\<close> the events it has emitted.
\<close>

record FarmFactory =
  ownable_owner :: address
  deploymentFee :: uint256
  feeReceiver :: address
  implementations :: "bytes32 \<Rightarrow> address"
  deployedFarms :: "address list"
  farmMetadataURI :: "address \<Rightarrow> string"
  farmCreators :: "address \<Rightarrow> address"
  balance :: nat
  sent :: "(address \<times> uint256) list"
  events :: "event list"

text \<open>
  \<open>msg.sender\<close> and \<open>msg.value\<close> of a call to the payable \<open>deployFarm\<close>. The other
  functions are not payable and take the sender alone.
\<close>

record msg =
  msg_sender :: address
  msg_value :: uint256

text \<open>
  What the chain answers during one \<open>deployFarm\<close>: whether the \<open>transfer\<close> to the fee
  receiver goes through, the address the \<open>CREATE\<close> of the clone returns (zero when
  it fails) and the \<open>success\<close> flag of \<open>farm.call(initData)\<close>. The two external
  calls are taken not to call back into the factory: \<open>transfer\<close> forwards too little gas
  for that, and the clone runs the code of a registered farm implementation.
\<close>

record evm =
  transfer_succeeds :: bool
  created :: address
  call_success :: bool

text \<open>
  A call that reverts leaves the storage as it was; a call that returns commits the
  storage it built.
\<close>

definition transact ::
  "('s \<Rightarrow> error + ('a \<times> 's)) \<Rightarrow> 's \<Rightarrow> (error + 'a) \<times> 's" where
  "transact body s =
     (case body s of
        Inl e \<Rightarrow> (Inl e, s)
      | Inr (v, s') \<Rightarrow> (Inr v, s'))"

text \<open>\<open>constructor() Ownable(msg.sender) {}\<close>: every other field starts at zero.\<close>

definition constructor :: "address \<Rightarrow> FarmFactory" where
  "constructor deployer =
     \<lparr>ownable_owner = deployer, deploymentFee = 0, feeReceiver = 0,
      implementations = (\<lambda>_. 0), deployedFarms = [],
      farmMetadataURI = (\<lambda>_. []), farmCreators = (\<lambda>_. 0),
      balance = 0, sent = [], events = []\<rparr>"

definition registerFarmType_body ::
  "address \<Rightarrow> bytes32 \<Rightarrow> address \<Rightarrow> FarmFactory \<Rightarrow> error + (unit \<times> FarmFactory)" where
  "registerFarmType_body sender farmType implementation s =
     (if sender \<noteq> ownable_owner s then Inl OwnableUnauthorizedAccount
      else if \<not> farmType \<noteq> 0 then Inl InvalidType
      else if \<not> implementation \<noteq> 0 then Inl ZeroAddress
      else if \<not> implementations s farmType = 0 then Inl AlreadyRegistered
      else Inr ((), s\<lparr>implementations := (implementations s)(farmType := implementation),
                       events := events s @ [FarmTypeRegistered farmType implementation]\<rparr>))"

definition registerFarmType ::
  "address \<Rightarrow> bytes32 \<Rightarrow> address \<Rightarrow> FarmFactory \<Rightarrow> (error + unit) \<times> FarmFactory" where
  "registerFarmType sender farmType implementation =
     transact (registerFarmType_body sender farmType implementation)"

definition setDeploymentFee_body ::
  "address \<Rightarrow> uint256 \<Rightarrow> address \<Rightarrow> FarmFactory \<Rightarrow> error + (unit \<times> FarmFactory)" where
  "setDeploymentFee_body sender fee receiver s =
     (if sender \<noteq> ownable_owner s then Inl OwnableUnauthorizedAccount
      else Inr ((), s\<lparr>deploymentFee := fee, feeReceiver := receiver\<rparr>))"

definition setDeploymentFee ::
  "address \<Rightarrow> uint256 \<Rightarrow> address \<Rightarrow> FarmFactory \<Rightarrow> (error + unit) \<times> FarmFactory" where
  "setDeploymentFee sender fee receiver = transact (setDeploymentFee_body sender fee receiver)"

text \<open>
  \<open>deployFarm\<close> is payable: \<open>msg.value\<close> is in the balance when the body starts. The
  \<open>transfer\<close> cannot fail for lack of balance (the fee is at most \<open>msg.value\<close>), only
  because the receiver rejects it.
\<close>

definition deployFarm_body ::
  "msg \<Rightarrow> evm \<Rightarrow> bytes32 \<Rightarrow> bytes \<Rightarrow> string \<Rightarrow> FarmFactory \<Rightarrow>
   error + (address \<times> FarmFactory)" where
  "deployFarm_body m x farmType initData metadataURI s =
     (let s0 = s\<lparr>balance := balance s + unat (msg_value m)\<rparr>;
          impl = implementations s0 farmType
      in if \<not> impl \<noteq> 0 then Inl UnregisteredFarmType
         else
           (case (if deploymentFee s0 > 0
                  then (if \<not> msg_value m \<ge> deploymentFee s0 then Inl InsufficientFee
                        else if feeReceiver s0 \<noteq> 0
                        then (if transfer_succeeds x
                              then Inr (s0\<lparr>balance := balance s0 - unat (deploymentFee s0),
                                            sent := sent s0 @ [(feeReceiver s0, deploymentFee s0)]\<rparr>)
                              else Inl TransferReverted)
                        else Inr s0)
                  else Inr s0) of
              Inl e \<Rightarrow> Inl e
            | Inr s1 \<Rightarrow>
                (let farm = created x
                 in if farm = 0 then Inl FailedDeployment
                    else if \<not> call_success x then Inl InitializationFailed
                    else Inr (farm,
                      s1\<lparr>deployedFarms := deployedFarms s1 @ [farm],
                         farmMetadataURI := (farmMetadataURI s1)(farm := metadataURI),
                         farmCreators := (farmCreators s1)(farm := msg_sender m),
                         events := events s1 @
                           [FarmDeployed farmType farm (msg_sender m) metadataURI]\<rparr>))))"

definition deployFarm ::
  "msg \<Rightarrow> evm \<Rightarrow> bytes32 \<Rightarrow> bytes \<Rightarrow> string \<Rightarrow> FarmFactory \<Rightarrow>
   (error + address) \<times> FarmFactory" where
  "deployFarm m x farmType initData metadataURI =
     transact (deployFarm_body m x farmType initData metadataURI)"

definition getFarmCount :: "FarmFactory \<Rightarrow> nat" where
  "getFarmCount s = length (deployedFarms s)"

text \<open>
  The copy loop of \<open>getDeployedFarms\<close>:
  \<open>for (uint256 i = offset; i < end; i++) farms[i - offset] = deployedFarms[i];\<close>
  Both array accesses are bounds-checked and \<open>i - offset\<close> is a checked subtraction.
\<close>

function copy_loop ::
  "address list \<Rightarrow> nat \<Rightarrow> nat \<Rightarrow> nat \<Rightarrow> address list \<Rightarrow> error + address list" where
  "copy_loop src offset end' i farms =
     (if i < end'
      then (if i < offset \<or> \<not> i - offset < length farms \<or> \<not> i < length src then Inl Panic
            else copy_loop src offset end' (Suc i) (farms[i - offset := src ! i]))
      else Inr farms)"
  by pat_completeness auto
termination
  by (relation "measure (\<lambda>(src, offset, end', i, farms). end' - i)") auto

text \<open>
  \<open>getDeployedFarms\<close> is a view: it returns a value or reverts, and has no storage to
  commit. \<open>offset + limit\<close> is a checked addition.
\<close>

definition getDeployedFarms :: "uint256 \<Rightarrow> uint256 \<Rightarrow> FarmFactory \<Rightarrow> error + address list" where
  "getDeployedFarms offset limit s =
     (let len = length (deployedFarms s)
      in if unat offset \<ge> len then Inr []
         else if \<not> unat offset + unat limit < 2 ^ 256 then Inl Panic
         else
           (let end' = (if unat offset + unat limit > len then len
                        else unat offset + unat limit)
            in copy_loop (deployedFarms s) (unat offset) end' (unat offset)
                 (replicate (end' - unat offset) 0)))"

definition isRegisteredFarmType :: "bytes32 \<Rightarrow> FarmFactory \<Rightarrow> bool" where
  "isRegisteredFarmType farmType s = (implementations s farmType \<noteq> 0)"

definition getFarmCreator :: "address \<Rightarrow> FarmFactory \<Rightarrow> address" where
  "getFarmCreator farm s = farmCreators s farm"

definition getMetadataURI :: "address \<Rightarrow> FarmFactory \<Rightarrow> string" where
  "getMetadataURI farm s = farmMetadataURI s farm"

text \<open>
  The two state-changing functions the factory inherits from \<open>Ownable\<close>; they write
  \<open>_owner\<close> only.
\<close>

definition transferOwnership ::
  "address \<Rightarrow> address \<Rightarrow> FarmFactory \<Rightarrow> (error + unit) \<times> FarmFactory" where
  "transferOwnership sender newOwner =
     transact (\<lambda>s. if sender \<noteq> ownable_owner s then Inl OwnableUnauthorizedAccount
                   else if newOwner = 0 then Inl OwnableInvalidOwner
                   else Inr ((), s\<lparr>ownable_owner := newOwner\<rparr>))"

definition renounceOwnership :: "address \<Rightarrow> FarmFactory \<Rightarrow> (error + unit) \<times> FarmFactory" where
  "renounceOwnership sender =
     transact (\<lambda>s. if sender \<noteq> ownable_owner s then Inl OwnableUnauthorizedAccount
                   else Inr ((), s\<lparr>ownable_owner := 0\<rparr>))"

text \<open>
  A history of the factory: the state-changing calls made to it since construction, each
  with its caller and, for \<open>deployFarm\<close>, what the chain answered. \<open>run\<close> gives the storage
  after a history, \<open>farms_produced\<close> the instances its successful \<open>deployFarm\<close> calls
  returned and \<open>types_registered\<close> the type identifiers its successful
  \<open>registerFarmType\<close> calls registered.
\<close>

datatype call =
    RegisterFarmType address bytes32 address
  | SetDeploymentFee address uint256 address
  | DeployFarm msg evm bytes32 bytes string
  | TransferOwnership address address
  | RenounceOwnership address

fun step :: "FarmFactory \<Rightarrow> call \<Rightarrow> FarmFactory" where
  "step s (RegisterFarmType sender farmType implementation) =
     snd (registerFarmType sender farmType implementation s)"
| "step s (SetDeploymentFee sender fee receiver) = snd (setDeploymentFee sender fee receiver s)"
| "step s (DeployFarm m x farmType initData metadataURI) =
     snd (deployFarm m x farmType initData metadataURI s)"
| "step s (TransferOwnership sender newOwner) = snd (transferOwnership sender newOwner s)"
| "step s (RenounceOwnership sender) = snd (renounceOwnership sender s)"

fun run :: "FarmFactory \<Rightarrow> call list \<Rightarrow> FarmFactory" where
  "run s [] = s"
| "run s (c # cs) = run (step s c) cs"

fun produced :: "FarmFactory \<Rightarrow> call \<Rightarrow> address list" where
  "produced s (DeployFarm m x farmType initData metadataURI) =
     (case fst (deployFarm m x farmType initData metadataURI s) of
        Inr farm \<Rightarrow> [farm]
      | Inl e \<Rightarrow> [])"
| "produced s c = []"

fun registered :: "FarmFactory \<Rightarrow> call \<Rightarrow> bytes32 list" where
  "registered s (RegisterFarmType sender farmType implementation) =
     (case fst (registerFarmType sender farmType implementation s) of
        Inr u \<Rightarrow> [farmType]
      | Inl e \<Rightarrow> [])"
| "registered s c = []"

fun farms_produced :: "FarmFactory \<Rightarrow> call list \<Rightarrow> address list" where
  "farms_produced s [] = []"
| "farms_produced s (c # cs) = produced s c @ farms_produced (step s c) cs"

fun types_registered :: "FarmFactory \<Rightarrow> call list \<Rightarrow> bytes32 list" where
  "types_registered s [] = []"
| "types_registered s (c # cs) = registered s c @ types_registered (step s c) cs"

section \<open>FarmInstance: \<open>EnhancedFixedAPYFarm.initialize\<close>\<close>

text \<open>
  The storage fields \<open>initialize\<close> writes. The source elides the declarations, further
  checks and further assignments of the contract; the fields here are the ones its
  \<open>initialize\<close> names.
\<close>

record EnhancedFixedAPYFarm =
  initialized :: bool
  owner :: address
  stakeToken :: address
  rewardToken :: address
  duration :: uint256
  lockDurationSeconds :: uint256
  boostMultiplier :: uint256
  lastUpdate :: uint256
  endTimestamp :: uint256

text \<open>
  Modelled from the spec: the checks the source elides as \<open>// ... other checks ...\<close>
  between the owner check and the duration check. The spec's \<open>initialize\<close> validates
  that the asset identifiers are non-null and distinct.
\<close>

definition other_checks :: "address \<Rightarrow> address \<Rightarrow> bool" where
  "other_checks stakeTokenArg rewardTokenArg =
     (stakeTokenArg \<noteq> 0 \<and> rewardTokenArg \<noteq> 0 \<and> stakeTokenArg \<noteq> rewardTokenArg)"

text \<open>
  \<open>initialize(bytes memory data)\<close>. The model takes \<open>block.timestamp\<close> and the outcome
  of \<open>abi.decode(data, (address, address, address, uint256, uint256, uint256))\<close>:
  \<open>None\<close> when decoding reverts, the six decoded values otherwise.
  \<open>startTime + duration\<close> is a checked addition.
\<close>

definition initialize_body ::
  "uint256 \<Rightarrow> (address \<times> address \<times> address \<times> uint256 \<times> uint256 \<times> uint256) option \<Rightarrow>
   EnhancedFixedAPYFarm \<Rightarrow> error + (unit \<times> EnhancedFixedAPYFarm)" where
  "initialize_body block_timestamp decoded s =
     (if \<not> \<not> initialized s then Inl AlreadyInitialized
      else
        (case decoded of
           None \<Rightarrow> Inl DecodeError
         | Some (ownerArg, stakeTokenArg, rewardTokenArg, durationArg, lockArg, boostArg) \<Rightarrow>
             if \<not> ownerArg \<noteq> 0 then Inl ZeroOwner
             else if \<not> other_checks stakeTokenArg rewardTokenArg then Inl InvalidTokens
             else if \<not> durationArg > 0 then Inl ZeroDuration
             else if \<not> boostArg \<ge> 100 then Inl BoostTooLow
             else if \<not> unat block_timestamp + unat durationArg < 2 ^ 256 then Inl Panic
             else Inr ((),
               s\<lparr>owner := ownerArg, stakeToken := stakeTokenArg, rewardToken := rewardTokenArg,
                  duration := durationArg, lockDurationSeconds := lockArg,
                  boostMultiplier := boostArg, lastUpdate := block_timestamp,
                  endTimestamp := block_timestamp + durationArg, initialized := True\<rparr>)))"

definition initialize ::
  "uint256 \<Rightarrow> (address \<times> address \<times> address \<times> uint256 \<times> uint256 \<times> uint256) option \<Rightarrow>
   EnhancedFixedAPYFarm \<Rightarrow> (error + unit) \<times> EnhancedFixedAPYFarm" where
  "initialize block_timestamp decoded = transact (initialize_body block_timestamp decoded)"

section \<open>Properties of the projector\<close>

lemma bn_div_nonneg: "0 \<le> a \<Longrightarrow> 0 \<le> b \<Longrightarrow> bn_div a b = a div b"
  by (cases "a = 0"; cases "b = 0") (simp_all add: bn_div_def)

lemma bn_div_zero [simp]: "bn_div 0 b = 0"
  by (simp add: bn_div_def)

lemma calc_defined:
  "us \<noteq> 0 \<Longrightarrow>
   calculateEstimatedRewards c (Some us) (Some r) (Some lu) (Some e) (Some b) =
     b + bn_div (us * r *
           max 0 (min (nowSeconds c) e -
                  max (min lu (min (nowSeconds c) e)) (farmStartSeconds (farmData c))))
         WeiPerEther"
  by (simp add: calculateEstimatedRewards_def Let_def min_def max_def)

lemma WeiPerEther_pos: "0 < WeiPerEther"
  by (simp add: WeiPerEther_def)

lemma calc_nonneg_inputs:
  assumes "us \<noteq> 0" "0 \<le> us" "0 \<le> r" "0 \<le> b"
  shows "b \<le> calculateEstimatedRewards c (Some us) (Some r) (Some lu) (Some e) (Some b)"
proof -
  let ?d = "max 0 (min (nowSeconds c) e -
                  max (min lu (min (nowSeconds c) e)) (farmStartSeconds (farmData c)))"
  have "0 \<le> us * r * ?d"
    using assms by simp
  then have "bn_div (us * r * ?d) WeiPerEther = (us * r * ?d) div WeiPerEther"
    using WeiPerEther_pos by (intro bn_div_nonneg) simp_all
  moreover have "0 \<le> (us * r * ?d) div WeiPerEther"
    using \<open>0 \<le> us * r * ?d\<close> WeiPerEther_pos by (simp only: pos_imp_zdiv_nonneg_iff)
  ultimately have "0 \<le> bn_div (us * r * ?d) WeiPerEther"
    by (simp only:)
  moreover have "calculateEstimatedRewards c (Some us) (Some r) (Some lu) (Some e) (Some b) =
      b + bn_div (us * r * ?d) WeiPerEther"
    using assms(1) by (rule calc_defined)
  ultimately show ?thesis
    by linarith
qed

text \<open>
  Where the farm start is not after the last update (a farm is last updated at its
  start at the earliest), the start clamp of the helper is idle: the helper returns
  \<open>alreadyAccrued + stakedAmount * rewardRatePerSecond * (effectiveNow - effectiveLastUpdate) / SCALE\<close>
  with \<open>effectiveNow = min(now, endTime)\<close> and
  \<open>effectiveLastUpdate = min(lastUpdateTime, effectiveNow)\<close>, and for non-negative stake,
  rate and \<open>alreadyAccrued\<close> that is non-negative and at least \<open>alreadyAccrued\<close>.
\<close>

lemma projector_formula_when_started:
  assumes "us \<noteq> 0" "farmStartSeconds (farmData c) \<le> min lu (min (nowSeconds c) e)"
  shows "calculateEstimatedRewards c (Some us) (Some r) (Some lu) (Some e) (Some b) =
           b + bn_div (us * r * (min (nowSeconds c) e - min lu (min (nowSeconds c) e)))
                 WeiPerEther"
    and "0 \<le> us \<Longrightarrow> 0 \<le> r \<Longrightarrow> 0 \<le> b \<Longrightarrow>
           b \<le> calculateEstimatedRewards c (Some us) (Some r) (Some lu) (Some e) (Some b)"
proof -
  show "calculateEstimatedRewards c (Some us) (Some r) (Some lu) (Some e) (Some b) =
           b + bn_div (us * r * (min (nowSeconds c) e - min lu (min (nowSeconds c) e)))
                 WeiPerEther"
    using assms by (simp add: calc_defined max_def min_def)
  show "0 \<le> us \<Longrightarrow> 0 \<le> r \<Longrightarrow> 0 \<le> b \<Longrightarrow>
           b \<le> calculateEstimatedRewards c (Some us) (Some r) (Some lu) (Some e) (Some b)"
    using assms(1) by (rule calc_nonneg_inputs)
qed

text \<open>
  Claim C1 at an input where the code departs from it. A farm ends at second 1000 and
  has a lock of 100 seconds, so \<open>loadData\<close> sets \<open>farmStartTime\<close> to second 900, the end
  minus the lock duration. The account stakes \<open>10 ^ 18\<close> at rate \<open>10 ^ 18\<close>, the last
  update is at second 100, 5 are already accrued and the clock is at second 200. The
  claim's value is 5 plus the reward of the 100 seconds since the last update; the helper
  moves \<open>effectiveLastUpdate\<close> up to second 900, finds it after \<open>effectiveNow\<close> and returns
  the 5 alone.
\<close>

theorem projector_lock_start_failing:
  "loadData_farmStartTime 1000 (Some 100) = Some (Date 900000)
   \<and> calculateEstimatedRewards
       \<lparr>dateNow = 200000,
        farmData = Some \<lparr>stakeTokenAddress = ''0x01'', rewardTokenAddress = ''0x02'',
          totalStaked = 10 ^ 18, rewardRatePerSecond = 10 ^ 18, lastUpdateTimestamp = 100,
          isFunded = True, totalRewardAmount = 10 ^ 21, farmEndTimestamp = 1000,
          farmEndTime = Some (Date 1000000),
          farmStartTime = loadData_farmStartTime 1000 (Some 100)\<rparr>,
        userData = None, estimatedClaimableRewards = 0\<rparr>
       (Some (10 ^ 18)) (Some (10 ^ 18)) (Some 100) (Some 1000) (Some 5) = 5
   \<and> 5 + bn_div (10 ^ 18 * 10 ^ 18 * (min 200 1000 - min 100 (min 200 1000))) WeiPerEther
       = 100000000000000000005"
  by (simp add: calculateEstimatedRewards_def nowSeconds_def farmStartSeconds_def
      loadData_farmStartTime_def toNumber_def newDate_def bn_div_def WeiPerEther_def)

text \<open>
  Where the farm start is not after the last update in either of two component states
  that show the same wall-clock second, the helper returns the same value for the same
  five arguments: its value is then fixed by the six values alone.
\<close>

lemma projector_six_inputs_when_started:
  assumes "nowSeconds c = nowSeconds c'"
    and "farmStartSeconds (farmData c) \<le> min lu (min (nowSeconds c) e)"
    and "farmStartSeconds (farmData c') \<le> min lu (min (nowSeconds c') e)"
  shows "calculateEstimatedRewards c (Some us) (Some r) (Some lu) (Some e) (Some b) =
         calculateEstimatedRewards c' (Some us) (Some r) (Some lu) (Some e) (Some b)"
proof (cases "us = 0")
  case True
  then show ?thesis by (simp add: calculateEstimatedRewards_def)
next
  case False
  show ?thesis
    using projector_formula_when_started(1)[OF False assms(2), of r b]
      projector_formula_when_started(1)[OF False assms(3), of r b] assms(1)
    by (simp only:)
qed

text \<open>
  Claim C8 at an input where the code departs from it. Two farms give the helper the
  same six values (stake \<open>10 ^ 18\<close>, rate \<open>10 ^ 18\<close>, last update 100, end 1000, 5
  already accrued, clock at second 200); one has a lock of 100 seconds and the other
  none, so \<open>loadData\<close> sets \<open>farmStartTime\<close> to second 900 for the first and leaves it
  undefined for the second. The helper returns 5 for the first and 5 plus the reward of
  100 seconds for the second: its value depends on the lock duration, which is not one of
  the six inputs.
\<close>

theorem projector_lock_dependence_failing:
  "calculateEstimatedRewards
     \<lparr>dateNow = 200000,
      farmData = Some \<lparr>stakeTokenAddress = ''0x01'', rewardTokenAddress = ''0x02'',
        totalStaked = 10 ^ 18, rewardRatePerSecond = 10 ^ 18, lastUpdateTimestamp = 100,
        isFunded = True, totalRewardAmount = 10 ^ 21, farmEndTimestamp = 1000,
        farmEndTime = Some (Date 1000000),
        farmStartTime = loadData_farmStartTime 1000 (Some 100)\<rparr>,
      userData = None, estimatedClaimableRewards = 0\<rparr>
     (Some (10 ^ 18)) (Some (10 ^ 18)) (Some 100) (Some 1000) (Some 5)
   \<noteq>
   calculateEstimatedRewards
     \<lparr>dateNow = 200000,
      farmData = Some \<lparr>stakeTokenAddress = ''0x01'', rewardTokenAddress = ''0x02'',
        totalStaked = 10 ^ 18, rewardRatePerSecond = 10 ^ 18, lastUpdateTimestamp = 100,
        isFunded = True, totalRewardAmount = 10 ^ 21, farmEndTimestamp = 1000,
        farmEndTime = Some (Date 1000000),
        farmStartTime = loadData_farmStartTime 1000 None\<rparr>,
      userData = None, estimatedClaimableRewards = 0\<rparr>
     (Some (10 ^ 18)) (Some (10 ^ 18)) (Some 100) (Some 1000) (Some 5)"
  by (simp add: calculateEstimatedRewards_def nowSeconds_def farmStartSeconds_def
      loadData_farmStartTime_def toNumber_def newDate_def bn_div_def WeiPerEther_def)


lemma timer_tick_data [simp]:
  "farmData (timer_tick c) = farmData c" "userData (timer_tick c) = userData c"
  by (simp_all add: timer_tick_def split: option.splits)

lemma ticks_data [simp]:
  "farmData (ticks c nows) = farmData c" "userData (ticks c nows) = userData c"
  by (induction nows arbitrary: c) simp_all






section \<open>Properties of the Registry\<close>

subsection \<open>The calls, case by case\<close>

lemma deployFarm_cases:
  "deployFarm m x farmType initData metadataURI s =
     (if implementations s farmType = 0 then (Inl UnregisteredFarmType, s)
      else if deploymentFee s > 0 \<and> msg_value m < deploymentFee s then (Inl InsufficientFee, s)
      else if deploymentFee s > 0 \<and> feeReceiver s \<noteq> 0 \<and> \<not> transfer_succeeds x
        then (Inl TransferReverted, s)
      else if created x = 0 then (Inl FailedDeployment, s)
      else if \<not> call_success x then (Inl InitializationFailed, s)
      else (Inr (created x),
        s\<lparr>balance := balance s + unat (msg_value m) -
              (if deploymentFee s > 0 \<and> feeReceiver s \<noteq> 0 then unat (deploymentFee s) else 0),
           sent := sent s @
              (if deploymentFee s > 0 \<and> feeReceiver s \<noteq> 0
               then [(feeReceiver s, deploymentFee s)] else []),
           deployedFarms := deployedFarms s @ [created x],
           farmMetadataURI := (farmMetadataURI s)(created x := metadataURI),
           farmCreators := (farmCreators s)(created x := msg_sender m),
           events := events s @
             [FarmDeployed farmType (created x) (msg_sender m) metadataURI]\<rparr>))"
  by (simp add: deployFarm_def deployFarm_body_def transact_def Let_def not_le)


lemma setDeploymentFee_cases:
  "setDeploymentFee sender fee receiver s =
     (if sender \<noteq> ownable_owner s then (Inl OwnableUnauthorizedAccount, s)
      else (Inr (), s\<lparr>deploymentFee := fee, feeReceiver := receiver\<rparr>))"
  by (simp add: setDeploymentFee_def setDeploymentFee_body_def transact_def)

lemma registerFarmType_cases:
  "registerFarmType sender farmType implementation s =
     (if sender \<noteq> ownable_owner s then (Inl OwnableUnauthorizedAccount, s)
      else if farmType = 0 then (Inl InvalidType, s)
      else if implementation = 0 then (Inl ZeroAddress, s)
      else if implementations s farmType \<noteq> 0 then (Inl AlreadyRegistered, s)
      else (Inr (), s\<lparr>implementations := (implementations s)(farmType := implementation),
                       events := events s @ [FarmTypeRegistered farmType implementation]\<rparr>))"
  by (simp add: registerFarmType_def registerFarmType_body_def transact_def)

lemma transferOwnership_cases:
  "transferOwnership sender newOwner s =
     (if sender \<noteq> ownable_owner s then (Inl OwnableUnauthorizedAccount, s)
      else if newOwner = 0 then (Inl OwnableInvalidOwner, s)
      else (Inr (), s\<lparr>ownable_owner := newOwner\<rparr>))"
  by (simp add: transferOwnership_def transact_def)

lemma renounceOwnership_cases:
  "renounceOwnership sender s =
     (if sender \<noteq> ownable_owner s then (Inl OwnableUnauthorizedAccount, s)
      else (Inr (), s\<lparr>ownable_owner := 0\<rparr>))"
  by (simp add: renounceOwnership_def transact_def)

lemmas call_cases =
  registerFarmType_cases setDeploymentFee_cases deployFarm_cases
  transferOwnership_cases renounceOwnership_cases

lemma step_keeps_binding:
  "implementations s t \<noteq> 0 \<Longrightarrow> implementations (step s c) t = implementations s t"
  by (cases c) (auto simp: call_cases split: if_splits)

lemma run_keeps_binding:
  "implementations s t \<noteq> 0 \<Longrightarrow> implementations (run s cs) t = implementations s t"
proof (induction cs arbitrary: s)
  case Nil
  then show ?case by simp
next
  case (Cons c cs)
  have "implementations (step s c) t = implementations s t"
    using Cons.prems by (rule step_keeps_binding)
  then show ?case using Cons by simp
qed

lemma step_provenance:
  "a \<notin> set (produced s c) \<Longrightarrow>
   farmCreators (step s c) a = farmCreators s a \<and>
   farmMetadataURI (step s c) a = farmMetadataURI s a"
  by (cases c) (auto simp: call_cases split: if_splits)

lemma step_implementations:
  "t \<notin> set (registered s c) \<Longrightarrow> implementations (step s c) t = implementations s t"
  by (cases c) (auto simp: call_cases split: if_splits)

lemma run_provenance:
  "a \<notin> set (farms_produced s cs) \<Longrightarrow>
   farmCreators (run s cs) a = farmCreators s a \<and>
   farmMetadataURI (run s cs) a = farmMetadataURI s a"
proof (induction cs arbitrary: s)
  case Nil
  then show ?case by simp
next
  case (Cons c cs)
  have here: "a \<notin> set (produced s c)" and later: "a \<notin> set (farms_produced (step s c) cs)"
    using Cons.prems by simp_all
  show ?case
    using step_provenance[OF here] Cons.IH[OF later] by simp
qed

lemma run_implementations:
  "t \<notin> set (types_registered s cs) \<Longrightarrow> implementations (run s cs) t = implementations s t"
proof (induction cs arbitrary: s)
  case Nil
  then show ?case by simp
next
  case (Cons c cs)
  have here: "t \<notin> set (registered s c)" and later: "t \<notin> set (types_registered (step s c) cs)"
    using Cons.prems by simp_all
  show ?case
    using step_implementations[OF here] Cons.IH[OF later] by simp
qed

lemma nth_map_upt_take_drop:
  "j \<le> length xs \<Longrightarrow> map ((!) xs) [i..<j] = take (j - i) (drop i xs)"
  by (rule nth_equalityI) (auto simp: min_def)

lemma copy_loop_result:
  assumes "offset \<le> i" "i \<le> end'" "end' \<le> length src" "length farms = end' - offset"
  shows "copy_loop src offset end' i farms =
           Inr (take (i - offset) farms @ map ((!) src) [i..<end'])"
  using assms
proof (induction src offset end' i farms rule: copy_loop.induct)
  case (1 src offset end' i farms)
  show ?case
  proof (cases "i < end'")
    case False
    then have "i = end'" using "1.prems" by simp
    then show ?thesis using "1.prems" by (simp add: copy_loop.simps[of src offset end' end'])
  next
    case True
    have nopanic: "\<not> (i < offset \<or> \<not> i - offset < length farms \<or> \<not> i < length src)"
      using True "1.prems" by auto
    have ih: "copy_loop src offset end' (Suc i) (farms[i - offset := src ! i]) =
        Inr (take (Suc i - offset) (farms[i - offset := src ! i]) @ map ((!) src) [Suc i..<end'])"
      using "1.IH"[OF True nopanic] True "1.prems" by simp
    have t: "take (Suc i - offset) (farms[i - offset := src ! i]) = take (i - offset) farms @ [src ! i]"
      using True "1.prems" by (simp add: Suc_diff_le take_Suc_conv_app_nth)
    have u: "[i..<end'] = i # [Suc i..<end']" using True by (simp add: upt_conv_Cons)
    show ?thesis
      using True nopanic ih t u by (simp add: copy_loop.simps[of src offset end' i])
  qed
qed

lemma getDeployedFarms_slice:
  assumes "unat offset + unat limit < 2 ^ 256"
  shows "getDeployedFarms offset limit s =
           Inr (take (unat limit) (drop (unat offset) (deployedFarms s)))"
proof (cases "unat offset \<ge> length (deployedFarms s)")
  case True
  then show ?thesis by (simp add: getDeployedFarms_def)
next
  case False
  let ?len = "length (deployedFarms s)"
  let ?e = "if unat offset + unat limit > ?len then ?len else unat offset + unat limit"
  have "copy_loop (deployedFarms s) (unat offset) ?e (unat offset) (replicate (?e - unat offset) 0)
      = Inr (take (unat offset - unat offset) (replicate (?e - unat offset) 0) @ map ((!) (deployedFarms s)) [unat offset..<?e])"
    using False by (intro copy_loop_result) auto
  also have "\<dots> = Inr (take (?e - unat offset) (drop (unat offset) (deployedFarms s)))"
    by (simp add: nth_map_upt_take_drop)
  also have "take (?e - unat offset) (drop (unat offset) (deployedFarms s)) =
       take (unat limit) (drop (unat offset) (deployedFarms s))"
    using False by auto
  finally show ?thesis using False assms by (simp add: getDeployedFarms_def Let_def)
qed

subsection \<open>deployFarm: failures\<close>

text \<open>
  Claim C3, as the code has it. \<open>deployFarm\<close> fails with \<open>UnregisteredFarmType\<close>
  whenever the type identifier maps to no implementation. For a registered type and a
  nonzero fee it fails with \<open>InsufficientFee\<close> whenever \<open>msg.value\<close> is less than the
  fee; otherwise a successful call has forwarded exactly the fee to the fee receiver
  when that receiver is non-null, and has forwarded nothing when it is null. When the
  checks before it pass and the clone is created, it fails with \<open>InitializationFailed\<close>
  whenever the call with \<open>initData\<close> on the clone does not succeed. Every failure leaves
  the storage of the factory as it was.
\<close>

theorem deployFarm_failures:
  "(implementations s farmType = 0 \<longrightarrow>
      deployFarm m x farmType initData metadataURI s = (Inl UnregisteredFarmType, s))
   \<and> (implementations s farmType \<noteq> 0 \<and> deploymentFee s > 0 \<and> msg_value m < deploymentFee s \<longrightarrow>
      deployFarm m x farmType initData metadataURI s = (Inl InsufficientFee, s))
   \<and> (implementations s farmType \<noteq> 0 \<and> deploymentFee s > 0 \<and> msg_value m \<ge> deploymentFee s \<and>
        fst (deployFarm m x farmType initData metadataURI s) = Inr farm \<longrightarrow>
      sent (snd (deployFarm m x farmType initData metadataURI s)) =
        sent s @ (if feeReceiver s \<noteq> 0 then [(feeReceiver s, deploymentFee s)] else []))
   \<and> (implementations s farmType \<noteq> 0 \<and>
        (deploymentFee s > 0 \<longrightarrow>
           msg_value m \<ge> deploymentFee s \<and> (feeReceiver s \<noteq> 0 \<longrightarrow> transfer_succeeds x)) \<and>
        created x \<noteq> 0 \<and> \<not> call_success x \<longrightarrow>
      deployFarm m x farmType initData metadataURI s = (Inl InitializationFailed, s))
   \<and> (fst (deployFarm m x farmType initData metadataURI s) = Inl e \<longrightarrow>
      snd (deployFarm m x farmType initData metadataURI s) = s)"
  by (auto simp: deployFarm_cases not_less)

text \<open>
  Witness of \<open>deployFarm_failures\<close>: an unregistered type on the fresh factory; then,
  after the owner registered type 7 and set a fee of 5 with receiver 3, a payment of 4
  (too little), a payment of 6 (the fee of 5 goes to 3) and a failing initializer.
\<close>

theorem deployFarm_failures_witness:
  "deployFarm \<lparr>msg_sender = 2, msg_value = 0\<rparr>
       \<lparr>transfer_succeeds = True, created = 10, call_success = True\<rparr> 7 [] ''uri''
       (constructor 1)
     = (Inl UnregisteredFarmType, constructor 1)
   \<and> deployFarm \<lparr>msg_sender = 2, msg_value = 4\<rparr>
       \<lparr>transfer_succeeds = True, created = 10, call_success = True\<rparr> 7 [] ''uri''
       (run (constructor 1) [RegisterFarmType 1 7 9, SetDeploymentFee 1 5 3])
     = (Inl InsufficientFee, run (constructor 1) [RegisterFarmType 1 7 9, SetDeploymentFee 1 5 3])
   \<and> sent (snd (deployFarm \<lparr>msg_sender = 2, msg_value = 6\<rparr>
       \<lparr>transfer_succeeds = True, created = 10, call_success = True\<rparr> 7 [] ''uri''
       (run (constructor 1) [RegisterFarmType 1 7 9, SetDeploymentFee 1 5 3])))
     = [(3, 5)]
   \<and> deployFarm \<lparr>msg_sender = 2, msg_value = 6\<rparr>
       \<lparr>transfer_succeeds = True, created = 10, call_success = False\<rparr> 7 [] ''uri''
       (run (constructor 1) [RegisterFarmType 1 7 9, SetDeploymentFee 1 5 3])
     = (Inl InitializationFailed,
        run (constructor 1) [RegisterFarmType 1 7 9, SetDeploymentFee 1 5 3])"
proof -
  let ?s = "run (constructor 1) [RegisterFarmType 1 7 9, SetDeploymentFee 1 5 3]"
  have s: "implementations ?s 7 = 9" "deploymentFee ?s = 5" "feeReceiver ?s = 3" "sent ?s = []"
    "implementations (constructor 1) 7 = 0"
    by (simp_all add: registerFarmType_cases setDeploymentFee_cases constructor_def)
  have ok: "fst (deployFarm \<lparr>msg_sender = 2, msg_value = 6\<rparr>
       \<lparr>transfer_succeeds = True, created = 10, call_success = True\<rparr> 7 [] ''uri'' ?s) = Inr 10"
    using s by (simp add: deployFarm_cases)
  show ?thesis
    using s ok
      deployFarm_failures[of "constructor 1" 7 "\<lparr>msg_sender = 2, msg_value = 0\<rparr>"
        "\<lparr>transfer_succeeds = True, created = 10, call_success = True\<rparr>" "[]" "''uri''" 10 Panic]
      deployFarm_failures[of ?s 7 "\<lparr>msg_sender = 2, msg_value = 4\<rparr>"
        "\<lparr>transfer_succeeds = True, created = 10, call_success = True\<rparr>" "[]" "''uri''" 10 Panic]
      deployFarm_failures[of ?s 7 "\<lparr>msg_sender = 2, msg_value = 6\<rparr>"
        "\<lparr>transfer_succeeds = True, created = 10, call_success = True\<rparr>" "[]" "''uri''" 10 Panic]
      deployFarm_failures[of ?s 7 "\<lparr>msg_sender = 2, msg_value = 6\<rparr>"
        "\<lparr>transfer_succeeds = True, created = 10, call_success = False\<rparr>" "[]" "''uri''" 10 Panic]
    by simp
qed

text \<open>
  Counterexample to C3 as stated: a fee of 5 is configured with the null address as
  receiver. A caller who pays 5 deploys successfully, no transfer is made and the 5
  stay in the balance of the factory: the fee is not forwarded.
\<close>

theorem deployFarm_null_receiver_counterexample:
  "deploymentFee (run (constructor 1) [RegisterFarmType 1 7 9, SetDeploymentFee 1 5 0]) = 5
   \<and> fst (deployFarm \<lparr>msg_sender = 2, msg_value = 5\<rparr>
       \<lparr>transfer_succeeds = True, created = 10, call_success = True\<rparr> 7 [] ''uri''
       (run (constructor 1) [RegisterFarmType 1 7 9, SetDeploymentFee 1 5 0])) = Inr 10
   \<and> sent (snd (deployFarm \<lparr>msg_sender = 2, msg_value = 5\<rparr>
       \<lparr>transfer_succeeds = True, created = 10, call_success = True\<rparr> 7 [] ''uri''
       (run (constructor 1) [RegisterFarmType 1 7 9, SetDeploymentFee 1 5 0]))) = []
   \<and> balance (snd (deployFarm \<lparr>msg_sender = 2, msg_value = 5\<rparr>
       \<lparr>transfer_succeeds = True, created = 10, call_success = True\<rparr> 7 [] ''uri''
       (run (constructor 1) [RegisterFarmType 1 7 9, SetDeploymentFee 1 5 0]))) = 5"
  by (simp add: deployFarm_cases registerFarmType_cases setDeploymentFee_cases constructor_def)

subsection \<open>registerFarmType\<close>

text \<open>
  Claim C4, as the code has it. Called by the owner, \<open>registerFarmType\<close> fails with
  \<open>Invalid type\<close> or \<open>Zero address\<close> (the spec's InvalidArgument) whenever the type
  identifier is zero or the implementation is null, and with \<open>Already registered\<close>
  whenever both are non-zero and the type identifier already maps to a non-null
  implementation; called by anyone else it fails as unauthorized. A call for a type
  identifier that already maps to a non-null implementation never succeeds and changes
  nothing, and no later history of calls changes that binding: after a first successful
  registration the mapping points to its implementation for good.
\<close>

theorem registerFarmType_errors:
  "(sender = ownable_owner s \<and> (farmType = 0 \<or> implementation = 0) \<longrightarrow>
      registerFarmType sender farmType implementation s =
        (Inl (if farmType = 0 then InvalidType else ZeroAddress), s))
   \<and> (sender = ownable_owner s \<and> farmType \<noteq> 0 \<and> implementation \<noteq> 0 \<and>
        implementations s farmType \<noteq> 0 \<longrightarrow>
      registerFarmType sender farmType implementation s = (Inl AlreadyRegistered, s))
   \<and> (sender \<noteq> ownable_owner s \<longrightarrow>
      registerFarmType sender farmType implementation s = (Inl OwnableUnauthorizedAccount, s))
   \<and> (implementations s farmType \<noteq> 0 \<longrightarrow>
      fst (registerFarmType sender farmType implementation s) \<noteq> Inr ()
      \<and> snd (registerFarmType sender farmType implementation s) = s
      \<and> implementations (run s cs) farmType = implementations s farmType)
   \<and> (fst (registerFarmType sender farmType implementation s) = Inr () \<longrightarrow>
      implementations (snd (registerFarmType sender farmType implementation s)) farmType
        = implementation
      \<and> implementation \<noteq> 0)"
proof (intro conjI impI)
  assume "implementations s farmType \<noteq> 0"
  then show "implementations (run s cs) farmType = implementations s farmType"
    by (rule run_keeps_binding)
qed (auto simp: registerFarmType_cases split: if_splits)

text \<open>
  Witness of \<open>registerFarmType_errors\<close>, on the factory deployed by account 1: a zero type
  identifier; a call by account 2; the first registration of type 7 with implementation
  9; and, after it, a second registration of type 7 with implementation 8, which fails
  and leaves 9 in place.
\<close>

theorem registerFarmType_errors_witness:
  "registerFarmType 1 0 9 (constructor 1) = (Inl InvalidType, constructor 1)
   \<and> registerFarmType 2 7 9 (constructor 1) = (Inl OwnableUnauthorizedAccount, constructor 1)
   \<and> implementations (snd (registerFarmType 1 7 9 (constructor 1))) 7 = 9
   \<and> registerFarmType 1 7 8 (snd (registerFarmType 1 7 9 (constructor 1)))
       = (Inl AlreadyRegistered, snd (registerFarmType 1 7 9 (constructor 1)))
   \<and> implementations
        (run (snd (registerFarmType 1 7 9 (constructor 1))) [RegisterFarmType 1 7 8]) 7 = 9"
proof -
  let ?s1 = "snd (registerFarmType 1 7 9 (constructor 1))"
  have c: "ownable_owner (constructor 1) = 1" "implementations (constructor 1) 7 = 0"
    by (simp_all add: constructor_def)
  have ok: "fst (registerFarmType 1 7 9 (constructor 1)) = Inr ()"
    using c by (simp add: registerFarmType_cases)
  have s1: "ownable_owner ?s1 = 1" "implementations ?s1 7 = 9"
    using c by (simp_all add: registerFarmType_cases)
  show ?thesis
    using c ok s1
      registerFarmType_errors[of 1 "constructor 1" 0 9 "[]"]
      registerFarmType_errors[of 2 "constructor 1" 7 9 "[]"]
      registerFarmType_errors[of 1 "constructor 1" 7 9 "[]"]
      registerFarmType_errors[of 1 ?s1 7 8 "[RegisterFarmType 1 7 8]"]
    by simp
qed

text \<open>
  Counterexample to C4 as stated: type 7 already maps to implementation 9, and the owner
  calls \<open>registerFarmType\<close> for type 7 with the null implementation. The argument checks
  come first: the call fails with \<open>Zero address\<close>, not with \<open>Already registered\<close>.
\<close>

theorem registerFarmType_precedence_counterexample:
  "implementations (snd (registerFarmType 1 7 9 (constructor 1))) 7 = 9
   \<and> fst (registerFarmType 1 7 0 (snd (registerFarmType 1 7 9 (constructor 1)))) = Inl ZeroAddress
   \<and> fst (registerFarmType 1 7 0 (snd (registerFarmType 1 7 9 (constructor 1))))
       \<noteq> Inl AlreadyRegistered"
  by (simp add: registerFarmType_cases constructor_def)

subsection \<open>getDeployedFarms\<close>

text \<open>
  Claim C6 at an input where the code departs from it. The factory holds the two
  instances 10 and 11; \<open>getDeployedFarms(1, 2 ^ 256 - 1)\<close> should return the slice that
  starts at index 1, which is \<open>[11]\<close>. The code adds \<open>offset + limit\<close> before it clamps;
  the checked addition overflows and the call reverts. (Whenever \<open>offset + limit\<close> does
  not overflow the code returns the clamped slice: \<open>getDeployedFarms_slice\<close>.)
\<close>

theorem getDeployedFarms_overflow:
  "getDeployedFarms 1
     115792089237316195423570985008687907853269984665640564039457584007913129639935
     ((constructor 1)\<lparr>deployedFarms := [10, 11]\<rparr>) = Inl Panic
   \<and> take (unat (115792089237316195423570985008687907853269984665640564039457584007913129639935 :: uint256))
       (drop (unat (1 :: uint256)) (deployedFarms ((constructor 1)\<lparr>deployedFarms := [10, 11]\<rparr>)))
     = [11]"
  by (simp add: getDeployedFarms_def constructor_def)

subsection \<open>deployFarm: effects of a successful call\<close>

text \<open>
  Claim C7. On every successful \<open>deployFarm\<close> the new instance is appended at the end of
  \<open>deployedFarms\<close>, \<open>farmCreators\<close> maps it to the caller, \<open>farmMetadataURI\<close> maps it to
  the given URI and the call returns its address. No earlier list entry changes, and no
  creator or URI recorded under another address changes; in particular, the new address
  being fresh, none of those recorded for the instances already in the list changes.
  The type mapping, the fee configuration and the owner stay as they were.
\<close>

theorem deployFarm_appends:
  assumes "deployFarm m x farmType initData metadataURI s = (Inr farm, s')"
  shows "deployedFarms s' = deployedFarms s @ [farm]
       \<and> farmCreators s' farm = msg_sender m
       \<and> farmMetadataURI s' farm = metadataURI
       \<and> farm = created x
       \<and> (\<forall>a. a \<noteq> farm \<longrightarrow>
             farmCreators s' a = farmCreators s a \<and> farmMetadataURI s' a = farmMetadataURI s a)
       \<and> (\<forall>i < length (deployedFarms s). deployedFarms s' ! i = deployedFarms s ! i)
       \<and> (farm \<notin> set (deployedFarms s) \<longrightarrow>
             (\<forall>a \<in> set (deployedFarms s).
                farmCreators s' a = farmCreators s a \<and>
                farmMetadataURI s' a = farmMetadataURI s a))
       \<and> implementations s' = implementations s
       \<and> deploymentFee s' = deploymentFee s \<and> feeReceiver s' = feeReceiver s
       \<and> ownable_owner s' = ownable_owner s"
  using assms by (auto simp: deployFarm_cases nth_append split: if_splits)

text \<open>
  Witness of \<open>deployFarm_appends\<close>: a factory that already holds instance 10 (creator 4);
  account 2 deploys type 7 and the clone gets address 11.
\<close>

theorem deployFarm_appends_witness:
  "deployedFarms (snd (deployFarm \<lparr>msg_sender = 2, msg_value = 6\<rparr>
       \<lparr>transfer_succeeds = True, created = 11, call_success = True\<rparr> 7 [] ''uri''
       ((constructor 1)\<lparr>implementations := (\<lambda>_. 0)(7 := 9), deployedFarms := [10],
          farmCreators := (\<lambda>_. 0)(10 := 4), farmMetadataURI := (\<lambda>_. [])(10 := ''old'')\<rparr>)))
     = [10, 11]
   \<and> farmCreators (snd (deployFarm \<lparr>msg_sender = 2, msg_value = 6\<rparr>
       \<lparr>transfer_succeeds = True, created = 11, call_success = True\<rparr> 7 [] ''uri''
       ((constructor 1)\<lparr>implementations := (\<lambda>_. 0)(7 := 9), deployedFarms := [10],
          farmCreators := (\<lambda>_. 0)(10 := 4), farmMetadataURI := (\<lambda>_. [])(10 := ''old'')\<rparr>))) 11
     = 2
   \<and> farmCreators (snd (deployFarm \<lparr>msg_sender = 2, msg_value = 6\<rparr>
       \<lparr>transfer_succeeds = True, created = 11, call_success = True\<rparr> 7 [] ''uri''
       ((constructor 1)\<lparr>implementations := (\<lambda>_. 0)(7 := 9), deployedFarms := [10],
          farmCreators := (\<lambda>_. 0)(10 := 4), farmMetadataURI := (\<lambda>_. [])(10 := ''old'')\<rparr>))) 10
     = 4"
proof -
  let ?s = "(constructor 1)\<lparr>implementations := (\<lambda>_. 0)(7 := 9), deployedFarms := [10],
          farmCreators := (\<lambda>_. 0)(10 := 4), farmMetadataURI := (\<lambda>_. [])(10 := ''old'')\<rparr>"
  let ?r = "deployFarm \<lparr>msg_sender = 2, msg_value = 6\<rparr>
       \<lparr>transfer_succeeds = True, created = 11, call_success = True\<rparr> 7 [] ''uri'' ?s"
  have ok: "?r = (Inr 11, snd ?r)"
    by (simp add: deployFarm_cases constructor_def)
  have old: "deployedFarms ?s = [10]" "farmCreators ?s 10 = 4"
    by (simp_all add: constructor_def)
  show ?thesis
    using deployFarm_appends[OF ok] old by simp
qed

subsection \<open>deployFarm: the fee\<close>

text \<open>
  Claim C9, as the code has it. With \<open>deploymentFee > 0\<close> and
  \<open>msg.value \<ge> deploymentFee\<close> the call is never rejected as \<open>Insufficient fee\<close>. It
  reverts, with nothing transferred and no state changed, if the type is unregistered,
  if the transfer to a non-null \<open>feeReceiver\<close> is rejected, if the clone cannot be
  created or if the initializer fails. Otherwise it succeeds, and has transferred exactly
  \<open>deploymentFee\<close> to \<open>feeReceiver\<close> when that address is non-null and nothing when it
  is null, and nothing to anyone else: the rest of \<open>msg.value\<close> (all of it in the second
  case) stays in the balance of the factory.
\<close>

theorem deployFarm_fee_transfer:
  assumes "deploymentFee s > 0" "msg_value m \<ge> deploymentFee s"
  shows "fst (deployFarm m x farmType initData metadataURI s) =
           (if implementations s farmType = 0 then Inl UnregisteredFarmType
            else if feeReceiver s \<noteq> 0 \<and> \<not> transfer_succeeds x then Inl TransferReverted
            else if created x = 0 then Inl FailedDeployment
            else if \<not> call_success x then Inl InitializationFailed
            else Inr (created x))
       \<and> fst (deployFarm m x farmType initData metadataURI s) \<noteq> Inl InsufficientFee
       \<and> (fst (deployFarm m x farmType initData metadataURI s) = Inl e \<longrightarrow>
            snd (deployFarm m x farmType initData metadataURI s) = s)
       \<and> (fst (deployFarm m x farmType initData metadataURI s) = Inr farm \<longrightarrow>
            sent (snd (deployFarm m x farmType initData metadataURI s)) =
              sent s @ (if feeReceiver s \<noteq> 0 then [(feeReceiver s, deploymentFee s)] else [])
            \<and> balance (snd (deployFarm m x farmType initData metadataURI s)) =
              balance s + (if feeReceiver s \<noteq> 0
                           then unat (msg_value m) - unat (deploymentFee s)
                           else unat (msg_value m)))"
proof -
  have "unat (deploymentFee s) \<le> unat (msg_value m)"
    using assms(2) by (simp add: word_le_nat_alt)
  then show ?thesis
    using assms by (auto simp: deployFarm_cases not_less)
qed

text \<open>
  Witness of \<open>deployFarm_fee_transfer\<close>: type 7 is registered, the fee is 5 and the payment
  8, once with receiver 3 (5 go to 3, 3 stay), once with the null receiver (all 8
  stay) and once with a failing initializer (the call reverts and changes nothing).
\<close>

theorem deployFarm_fee_transfer_witness:
  "sent (snd (deployFarm \<lparr>msg_sender = 2, msg_value = 8\<rparr>
       \<lparr>transfer_succeeds = True, created = 10, call_success = True\<rparr> 7 [] ''uri''
       ((constructor 1)\<lparr>implementations := (\<lambda>_. 0)(7 := 9),
          deploymentFee := 5, feeReceiver := 3\<rparr>))) = [(3, 5)]
   \<and> balance (snd (deployFarm \<lparr>msg_sender = 2, msg_value = 8\<rparr>
       \<lparr>transfer_succeeds = True, created = 10, call_success = True\<rparr> 7 [] ''uri''
       ((constructor 1)\<lparr>implementations := (\<lambda>_. 0)(7 := 9),
          deploymentFee := 5, feeReceiver := 3\<rparr>))) = 3
   \<and> sent (snd (deployFarm \<lparr>msg_sender = 2, msg_value = 8\<rparr>
       \<lparr>transfer_succeeds = True, created = 10, call_success = True\<rparr> 7 [] ''uri''
       ((constructor 1)\<lparr>implementations := (\<lambda>_. 0)(7 := 9),
          deploymentFee := 5, feeReceiver := 0\<rparr>))) = []
   \<and> balance (snd (deployFarm \<lparr>msg_sender = 2, msg_value = 8\<rparr>
       \<lparr>transfer_succeeds = True, created = 10, call_success = True\<rparr> 7 [] ''uri''
       ((constructor 1)\<lparr>implementations := (\<lambda>_. 0)(7 := 9),
          deploymentFee := 5, feeReceiver := 0\<rparr>))) = 8
   \<and> fst (deployFarm \<lparr>msg_sender = 2, msg_value = 8\<rparr>
       \<lparr>transfer_succeeds = True, created = 10, call_success = False\<rparr> 7 [] ''uri''
       ((constructor 1)\<lparr>implementations := (\<lambda>_. 0)(7 := 9),
          deploymentFee := 5, feeReceiver := 3\<rparr>)) = Inl InitializationFailed
   \<and> snd (deployFarm \<lparr>msg_sender = 2, msg_value = 8\<rparr>
       \<lparr>transfer_succeeds = True, created = 10, call_success = False\<rparr> 7 [] ''uri''
       ((constructor 1)\<lparr>implementations := (\<lambda>_. 0)(7 := 9),
          deploymentFee := 5, feeReceiver := 3\<rparr>))
     = (constructor 1)\<lparr>implementations := (\<lambda>_. 0)(7 := 9),
          deploymentFee := 5, feeReceiver := 3\<rparr>"
proof -
  let ?s3 = "(constructor 1)\<lparr>implementations := (\<lambda>_. 0)(7 := 9),
          deploymentFee := 5, feeReceiver := 3\<rparr>"
  let ?s0 = "(constructor 1)\<lparr>implementations := (\<lambda>_. 0)(7 := 9),
          deploymentFee := 5, feeReceiver := 0\<rparr>"
  let ?m = "\<lparr>msg_sender = 2, msg_value = 8\<rparr>"
  let ?x = "\<lparr>transfer_succeeds = True, created = 10, call_success = True\<rparr>"
  have h3: "deploymentFee ?s3 > 0" "msg_value ?m \<ge> deploymentFee ?s3"
    by simp_all
  have h0: "deploymentFee ?s0 > 0" "msg_value ?m \<ge> deploymentFee ?s0"
    by simp_all
  show ?thesis
    using deployFarm_fee_transfer[OF h3, of ?x 7 "[]" "''uri''" Panic 10]
      deployFarm_fee_transfer[OF h0, of ?x 7 "[]" "''uri''" Panic 10]
      deployFarm_fee_transfer[OF h3,
        of "\<lparr>transfer_succeeds = True, created = 10, call_success = False\<rparr>" 7 "[]" "''uri''"
          InitializationFailed 10]
    by (simp add: constructor_def)
qed

text \<open>
  Counterexample to C9 as stated: type 7 is registered, the fee is 5, the receiver is
  the non-null address 3 and the caller pays 8, but the receiver rejects the transfer.
  The whole call reverts: nothing is transferred, no instance is deployed and the
  factory is left as it was.
\<close>

theorem deployFarm_rejecting_receiver_counterexample:
  "deployFarm \<lparr>msg_sender = 2, msg_value = 8\<rparr>
       \<lparr>transfer_succeeds = False, created = 10, call_success = True\<rparr> 7 [] ''uri''
       (run (constructor 1) [RegisterFarmType 1 7 9, SetDeploymentFee 1 5 3])
     = (Inl TransferReverted,
        run (constructor 1) [RegisterFarmType 1 7 9, SetDeploymentFee 1 5 3])
   \<and> deploymentFee (run (constructor 1) [RegisterFarmType 1 7 9, SetDeploymentFee 1 5 3]) = 5
   \<and> feeReceiver (run (constructor 1) [RegisterFarmType 1 7 9, SetDeploymentFee 1 5 3]) = 3
   \<and> sent (run (constructor 1) [RegisterFarmType 1 7 9, SetDeploymentFee 1 5 3]) = []
   \<and> deployedFarms (run (constructor 1) [RegisterFarmType 1 7 9, SetDeploymentFee 1 5 3]) = []"
  by (simp add: deployFarm_cases registerFarmType_cases setDeploymentFee_cases constructor_def)

subsection \<open>Lookups\<close>

text \<open>
  Claim C10. The three lookups are total functions of the storage. After any history
  of calls since construction, \<open>getFarmCreator\<close> returns the null address and
  \<open>getMetadataURI\<close> the empty string for every address that no successful \<open>deployFarm\<close>
  of the history returned, and \<open>isRegisteredFarmType\<close> returns false for every type
  identifier that no successful \<open>registerFarmType\<close> of the history registered.
\<close>

theorem lookups_unknown_keys:
  "(farm \<notin> set (farms_produced (constructor deployer) cs) \<longrightarrow>
      getFarmCreator farm (run (constructor deployer) cs) = 0 \<and>
      getMetadataURI farm (run (constructor deployer) cs) = [])
   \<and> (farmType \<notin> set (types_registered (constructor deployer) cs) \<longrightarrow>
      \<not> isRegisteredFarmType farmType (run (constructor deployer) cs))"
proof (intro conjI impI)
  assume h: "farm \<notin> set (farms_produced (constructor deployer) cs)"
  show "getFarmCreator farm (run (constructor deployer) cs) = 0"
    using run_provenance[OF h] by (simp add: getFarmCreator_def constructor_def)
  show "getMetadataURI farm (run (constructor deployer) cs) = []"
    using run_provenance[OF h] by (simp add: getMetadataURI_def constructor_def)
next
  assume h: "farmType \<notin> set (types_registered (constructor deployer) cs)"
  show "\<not> isRegisteredFarmType farmType (run (constructor deployer) cs)"
    using run_implementations[OF h] by (simp add: isRegisteredFarmType_def constructor_def)
qed

text \<open>
  Witness of \<open>lookups_unknown_keys\<close>: the owner registers type 7 and account 2 deploys
  instance 10; address 11 and type 8 are unknown.
\<close>

theorem lookups_unknown_keys_witness:
  "farms_produced (constructor 1)
     [RegisterFarmType 1 7 9,
      DeployFarm \<lparr>msg_sender = 2, msg_value = 0\<rparr>
        \<lparr>transfer_succeeds = True, created = 10, call_success = True\<rparr> 7 [] ''uri''] = [10]
   \<and> types_registered (constructor 1)
     [RegisterFarmType 1 7 9,
      DeployFarm \<lparr>msg_sender = 2, msg_value = 0\<rparr>
        \<lparr>transfer_succeeds = True, created = 10, call_success = True\<rparr> 7 [] ''uri''] = [7]
   \<and> getFarmCreator 11 (run (constructor 1)
     [RegisterFarmType 1 7 9,
      DeployFarm \<lparr>msg_sender = 2, msg_value = 0\<rparr>
        \<lparr>transfer_succeeds = True, created = 10, call_success = True\<rparr> 7 [] ''uri'']) = 0
   \<and> getMetadataURI 11 (run (constructor 1)
     [RegisterFarmType 1 7 9,
      DeployFarm \<lparr>msg_sender = 2, msg_value = 0\<rparr>
        \<lparr>transfer_succeeds = True, created = 10, call_success = True\<rparr> 7 [] ''uri'']) = []
   \<and> \<not> isRegisteredFarmType 8 (run (constructor 1)
     [RegisterFarmType 1 7 9,
      DeployFarm \<lparr>msg_sender = 2, msg_value = 0\<rparr>
        \<lparr>transfer_succeeds = True, created = 10, call_success = True\<rparr> 7 [] ''uri''])"
proof -
  let ?cs = "[RegisterFarmType 1 7 9,
      DeployFarm \<lparr>msg_sender = 2, msg_value = 0\<rparr>
        \<lparr>transfer_succeeds = True, created = 10, call_success = True\<rparr> 7 [] ''uri'']"
  have p: "farms_produced (constructor 1) ?cs = [10]"
    by (simp add: call_cases constructor_def)
  have r: "types_registered (constructor 1) ?cs = [7]"
    by (simp add: call_cases constructor_def)
  show ?thesis
    using p r lookups_unknown_keys[of 11 1 ?cs 8] by simp
qed

section \<open>Properties of the FarmInstance initializer\<close>

lemma initialize_cases:
  "initialize now decoded s =
     (if initialized s then (Inl AlreadyInitialized, s)
      else
        (case decoded of
           None \<Rightarrow> (Inl DecodeError, s)
         | Some (ow, st, rt, d, l, bm) \<Rightarrow>
             if ow = 0 then (Inl ZeroOwner, s)
             else if \<not> (st \<noteq> 0 \<and> rt \<noteq> 0 \<and> st \<noteq> rt) then (Inl InvalidTokens, s)
             else if d = 0 then (Inl ZeroDuration, s)
             else if bm < 100 then (Inl BoostTooLow, s)
             else if \<not> unat now + unat d < 2 ^ 256 then (Inl Panic, s)
             else (Inr (),
               s\<lparr>owner := ow, stakeToken := st, rewardToken := rt,
                  duration := d, lockDurationSeconds := l,
                  boostMultiplier := bm, lastUpdate := now,
                  endTimestamp := now + d, initialized := True\<rparr>)))"
  by (simp add: initialize_def initialize_body_def transact_def other_checks_def
      word_neq_0_conv not_le split: option.splits prod.splits)

lemma unat_checked_add:
  fixes a b :: uint256
  shows "unat a + unat b < 2 ^ 256 \<Longrightarrow> unat (a + b) = unat a + unat b"
  using unat_add_lem[of a b] by simp

text \<open>
  Claim C5. \<open>initialize\<close> succeeds exactly when the instance is not yet initialized, the
  owner is non-null, the two tokens are non-null and distinct, the duration is positive,
  the boost multiplier is at least 100 and \<open>block.timestamp + duration\<close> does not
  overflow. On success the decoded values are stored, \<open>lastUpdate\<close> is the current time
  (the \<open>startTime\<close> of the source), \<open>endTimestamp\<close> is that time plus the duration and
  the guard \<open>initialized\<close> is set; from then on every call of \<open>initialize\<close>, whatever its
  arguments, fails with \<open>Already initialized\<close> and leaves every field as the first call
  set it. A failed call changes nothing.
\<close>

theorem initialize_once:
  "(fst (initialize now (Some (ow, st, rt, d, l, bm)) s) = Inr () \<longleftrightarrow>
      \<not> initialized s \<and> ow \<noteq> 0 \<and> st \<noteq> 0 \<and> rt \<noteq> 0 \<and> st \<noteq> rt \<and> d > 0 \<and> bm \<ge> 100 \<and>
      unat now + unat d < 2 ^ 256)
   \<and> (fst (initialize now (Some (ow, st, rt, d, l, bm)) s) = Inr () \<longrightarrow>
        owner (snd (initialize now (Some (ow, st, rt, d, l, bm)) s)) = ow \<and>
        stakeToken (snd (initialize now (Some (ow, st, rt, d, l, bm)) s)) = st \<and>
        rewardToken (snd (initialize now (Some (ow, st, rt, d, l, bm)) s)) = rt \<and>
        duration (snd (initialize now (Some (ow, st, rt, d, l, bm)) s)) = d \<and>
        lockDurationSeconds (snd (initialize now (Some (ow, st, rt, d, l, bm)) s)) = l \<and>
        boostMultiplier (snd (initialize now (Some (ow, st, rt, d, l, bm)) s)) = bm \<and>
        lastUpdate (snd (initialize now (Some (ow, st, rt, d, l, bm)) s)) = now \<and>
        unat (endTimestamp (snd (initialize now (Some (ow, st, rt, d, l, bm)) s))) =
          unat now + unat d \<and>
        initialized (snd (initialize now (Some (ow, st, rt, d, l, bm)) s)) \<and>
        initialize now' decoded' (snd (initialize now (Some (ow, st, rt, d, l, bm)) s)) =
          (Inl AlreadyInitialized, snd (initialize now (Some (ow, st, rt, d, l, bm)) s)))
   \<and> (fst (initialize now None s) \<noteq> Inr ())
   \<and> (fst (initialize now decoded s) = Inl e \<longrightarrow> snd (initialize now decoded s) = s)
   \<and> (initialized s \<longrightarrow> initialize now decoded s = (Inl AlreadyInitialized, s))"
proof (intro conjI impI)
  show "fst (initialize now (Some (ow, st, rt, d, l, bm)) s) = Inr () \<longleftrightarrow>
      \<not> initialized s \<and> ow \<noteq> 0 \<and> st \<noteq> 0 \<and> rt \<noteq> 0 \<and> st \<noteq> rt \<and> d > 0 \<and> bm \<ge> 100 \<and>
      unat now + unat d < 2 ^ 256"
    by (auto simp: initialize_cases word_neq_0_conv not_less not_le)
next
  assume ok: "fst (initialize now (Some (ow, st, rt, d, l, bm)) s) = Inr ()"
  then have c: "\<not> initialized s" "ow \<noteq> 0" "st \<noteq> 0 \<and> rt \<noteq> 0 \<and> st \<noteq> rt" "d \<noteq> 0" "\<not> bm < 100"
    "unat now + unat d < 2 ^ 256"
    by (simp_all add: initialize_cases split: if_splits)
  let ?s' = "snd (initialize now (Some (ow, st, rt, d, l, bm)) s)"
  have s': "?s' = s\<lparr>owner := ow, stakeToken := st, rewardToken := rt,
                  duration := d, lockDurationSeconds := l,
                  boostMultiplier := bm, lastUpdate := now,
                  endTimestamp := now + d, initialized := True\<rparr>"
    using c by (simp add: initialize_cases)
  show "owner ?s' = ow" "stakeToken ?s' = st" "rewardToken ?s' = rt" "duration ?s' = d"
    "lockDurationSeconds ?s' = l" "boostMultiplier ?s' = bm" "lastUpdate ?s' = now"
    "initialized ?s'"
    by (simp_all add: s')
  show "unat (endTimestamp ?s') = unat now + unat d"
    using c(6) by (simp add: s' unat_checked_add)
  show "initialize now' decoded' ?s' = (Inl AlreadyInitialized, ?s')"
    using \<open>initialized ?s'\<close> by (simp only: initialize_cases if_True)
next
  show "fst (initialize now None s) \<noteq> Inr ()"
    by (simp add: initialize_cases)
next
  assume "fst (initialize now decoded s) = Inl e"
  then show "snd (initialize now decoded s) = s"
    by (auto simp: initialize_cases split: if_splits option.splits)
next
  assume "initialized s"
  then show "initialize now decoded s = (Inl AlreadyInitialized, s)"
    by (simp add: initialize_cases)
qed

text \<open>
  Witness of \<open>initialize_once\<close>: at time 1000, owner 1, tokens 2 and 3, thirty days, a lock
  of one day and a boost of 150; a second call at time 2000 is rejected.
\<close>

theorem initialize_once_witness:
  "fst (initialize 1000 (Some (1, 2, 3, 2592000, 86400, 150))
     \<lparr>initialized = False, owner = 0, stakeToken = 0, rewardToken = 0, duration = 0,
      lockDurationSeconds = 0, boostMultiplier = 0, lastUpdate = 0, endTimestamp = 0\<rparr>) = Inr ()
   \<and> unat (endTimestamp (snd (initialize 1000 (Some (1, 2, 3, 2592000, 86400, 150))
     \<lparr>initialized = False, owner = 0, stakeToken = 0, rewardToken = 0, duration = 0,
      lockDurationSeconds = 0, boostMultiplier = 0, lastUpdate = 0, endTimestamp = 0\<rparr>))) = 2593000
   \<and> initialize 2000 (Some (4, 5, 6, 10, 0, 100))
       (snd (initialize 1000 (Some (1, 2, 3, 2592000, 86400, 150))
     \<lparr>initialized = False, owner = 0, stakeToken = 0, rewardToken = 0, duration = 0,
      lockDurationSeconds = 0, boostMultiplier = 0, lastUpdate = 0, endTimestamp = 0\<rparr>))
     = (Inl AlreadyInitialized, snd (initialize 1000 (Some (1, 2, 3, 2592000, 86400, 150))
     \<lparr>initialized = False, owner = 0, stakeToken = 0, rewardToken = 0, duration = 0,
      lockDurationSeconds = 0, boostMultiplier = 0, lastUpdate = 0, endTimestamp = 0\<rparr>))"
proof -
  let ?s = "\<lparr>initialized = False, owner = 0, stakeToken = 0, rewardToken = 0, duration = 0,
      lockDurationSeconds = 0, boostMultiplier = 0, lastUpdate = 0, endTimestamp = 0\<rparr>"
  have ok: "fst (initialize 1000 (Some (1, 2, 3, 2592000, 86400, 150)) ?s) = Inr ()"
    by (simp add: initialize_cases)
  show ?thesis
    using ok initialize_once[of 1000 1 2 3 2592000 86400 150 ?s 2000 "Some (4, 5, 6, 10, 0, 100)"]
    by simp
qed

end
